theory Spec2Isabelle
  imports Main "HOL-Library.Sublist"
begin

section \<open>Filesystem and path model\<close>

text \<open>
  The module \<^verbatim>\<open>simtradelab/utils/paths.py\<close> only probes the filesystem through
  \<^verbatim>\<open>pathlib\<close>. A path is the list of its components below the filesystem root
  (both \<^verbatim>\<open>Path.cwd()\<close> and \<^verbatim>\<open>Path(__file__).resolve()\<close> are absolute), and a
  filesystem state is a tree of regular files and directories. Symbolic links are
  taken as already followed, and every probe can read the metadata it asks for.
\<close>

type_synonym path = "string list"

datatype node = File | Dir "(string \<times> node) list"

fun lookup :: "node \<Rightarrow> path \<Rightarrow> node option" where
  "lookup n [] = Some n"
| "lookup File (c # cs) = None"
| "lookup (Dir es) (c # cs) =
     (case map_of es c of None \<Rightarrow> None | Some n \<Rightarrow> lookup n cs)"

text \<open>\<^verbatim>\<open>Path.is_dir()\<close> and \<^verbatim>\<open>Path.exists()\<close>: a missing path is \<open>False\<close>.\<close>

definition is_dir :: "node \<Rightarrow> path \<Rightarrow> bool" where
  "is_dir root p = (case lookup root p of Some (Dir es) \<Rightarrow> True | _ \<Rightarrow> False)"

definition path_exists :: "node \<Rightarrow> path \<Rightarrow> bool" where
  "path_exists root p = (lookup root p \<noteq> None)"

text \<open>\<^verbatim>\<open>p / seg\<close> for a relative segment, \<^verbatim>\<open>p.parent\<close> (the root is its own parent)
  and \<^verbatim>\<open>p.parents\<close> (nearest first, ending at the root; empty for the root).\<close>

definition joinpath :: "path \<Rightarrow> string \<Rightarrow> path" where
  "joinpath p seg = p @ [seg]"

definition parent :: "path \<Rightarrow> path" where
  "parent p = butlast p"

function parents :: "path \<Rightarrow> path list" where
  "parents p = (if p = [] then [] else parent p # parents (parent p))"
  by pat_completeness auto
termination
  by (relation "measure length") (auto simp: parent_def)

declare parents.simps [simp del]

record env =
  env_fs :: node
  env_cwd :: path
  env_file :: path

section \<open>The module paths.py\<close>

definition is_project_dir :: "node \<Rightarrow> path \<Rightarrow> bool" where
  "is_project_dir root p =
     (let data_dir = joinpath p ''data'' in
      if \<not> is_dir root data_dir then False
      else path_exists root (joinpath data_dir ''manifest.json'')
           \<or> is_dir root (joinpath p ''strategies''))"

text \<open>A \<^verbatim>\<open>for\<close> loop over candidates that returns the first one passing the test;
  \<open>None\<close> when the loop falls through.\<close>

fun first_match :: "(path \<Rightarrow> bool) \<Rightarrow> path list \<Rightarrow> path option" where
  "first_match P [] = None"
| "first_match P (c # cs) = (if P c then Some c else first_match P cs)"

definition get_project_root :: "env \<Rightarrow> path" where
  "get_project_root e =
     (let cwd = env_cwd e in
      case first_match (is_project_dir (env_fs e)) [cwd, parent cwd] of
        Some candidate \<Rightarrow> candidate
      | None \<Rightarrow>
          (let current = env_file e in
           case first_match (is_project_dir (env_fs e)) ([current] @ parents current) of
             Some p \<Rightarrow> p
           | None \<Rightarrow>
               (case first_match (\<lambda>p. path_exists (env_fs e) (joinpath p ''pyproject.toml''))
                       ([current] @ parents current) of
                  Some p \<Rightarrow> p
                | None \<Rightarrow> parent (parent (parent current)))))"

definition get_data_path :: "env \<Rightarrow> path" where
  "get_data_path e = joinpath (get_project_root e) ''data''"

definition get_strategies_path :: "env \<Rightarrow> path" where
  "get_strategies_path e = joinpath (get_project_root e) ''strategies''"


subsection \<open>The lazy module constants\<close>

datatype py_error = AttributeError string

text \<open>
  \<^verbatim>\<open>{name!r}\<close> formats \<^verbatim>\<open>repr(name)\<close>. Names are strings over the code points below
  256. \<^verbatim>\<open>repr\<close> encloses the string in single quotes, or in double quotes when it holds a
  single quote and no double quote; it escapes the backslash and the enclosing quote
  with a backslash, writes tab, newline and carriage return as \<^verbatim>\<open>\t\<close>, \<^verbatim>\<open>\n\<close>, \<^verbatim>\<open>\r\<close>,
  and every other non-printable character as \<^verbatim>\<open>\xhh\<close>. Below 256 the printable
  characters are 32 to 126 and 161 to 255 except 173.
\<close>

definition py_printable :: "char \<Rightarrow> bool" where
  "py_printable c =
     (let n = (of_char c :: nat) in (32 \<le> n \<and> n < 127) \<or> (161 \<le> n \<and> n \<noteq> 173))"

definition hex_digit :: "nat \<Rightarrow> char" where
  "hex_digit n = ''0123456789abcdef'' ! n"

definition repr_quote :: "string \<Rightarrow> char" where
  "repr_quote s = (if CHR 0x27 \<in> set s \<and> CHR 0x22 \<notin> set s then CHR 0x22 else CHR 0x27)"

definition repr_char :: "char \<Rightarrow> char \<Rightarrow> string" where
  "repr_char q c =
     (if c = q \<or> c = CHR 0x5C then [CHR 0x5C, c]
      else if c = CHR 0x09 then [CHR 0x5C, CHR ''t'']
      else if c = CHR 0x0A then [CHR 0x5C, CHR ''n'']
      else if c = CHR 0x0D then [CHR 0x5C, CHR ''r'']
      else if \<not> py_printable c then
        [CHR 0x5C, CHR ''x'', hex_digit (of_char c div 16), hex_digit (of_char c mod 16)]
      else [c])"

definition str_repr :: "string \<Rightarrow> string" where
  "str_repr s = (let q = repr_quote s in [q] @ concat (map (repr_char q) s) @ [q])"

definition no_attribute_msg :: "string \<Rightarrow> string" where
  "no_attribute_msg name =
     ''module '' @ [CHR 0x27] @ ''paths'' @ [CHR 0x27] @ '' has no attribute '' @ str_repr name"

definition module_getattr :: "env \<Rightarrow> string \<Rightarrow> py_error + path" where
  "module_getattr e name =
     (if name = ''PROJECT_ROOT'' then Inr (get_project_root e)
      else if name = ''DATA_PATH'' then Inr (get_data_path e)
      else if name = ''STRATEGIES_PATH'' then Inr (get_strategies_path e)
      else if name = ''ADJ_PRE_CACHE_PATH'' then
        Inr (joinpath (get_data_path e) ''ptrade_adj_pre.parquet'')
      else if name = ''ADJ_POST_CACHE_PATH'' then
        Inr (joinpath (get_data_path e) ''ptrade_adj_post.parquet'')
      else Inl (AttributeError (no_attribute_msg name)))"

subsection \<open>The upward walk as the specification words it\<close>


section \<open>The module with failing probes and arbitrary names\<close>

text \<open>
  The definitions above give the value each operation returns when every probe
  answers. Here the probes are the system calls behind \<^verbatim>\<open>pathlib\<close>, which can fail.
  A directory carries a flag saying whether the process may search it. \<^verbatim>\<open>stat\<close>
  walks a path from the root: a step out of a regular file fails with \<open>ENOTDIR\<close>, a
  step inside a directory that may not be searched with \<open>EACCES\<close>, a component
  \<^verbatim>\<open>..\<close> goes to the directory above (the root is above itself), a component of more
  than \<open>name_max\<close> characters fails with \<open>ENAMETOOLONG\<close>, and a name that is not an
  entry with \<open>ENOENT\<close>. Before the walk, a path whose text does not fit in
  \<open>path_max\<close> characters fails with \<open>ENAMETOOLONG\<close>. The limits are those of Linux.
  Paths are absolute and hold no empty or \<^verbatim>\<open>.\<close> component, as \<^verbatim>\<open>pathlib\<close> builds them;
  the text of a path is a slash before each component, and a single slash for the root.
\<close>

definition name_max :: nat where
  "name_max = 255"

definition path_max :: nat where
  "path_max = 4096"

definition path_len :: "path \<Rightarrow> nat" where
  "path_len p = (if p = [] then 1 else sum_list (map (\<lambda>c. Suc (length c)) p))"

datatype errno = ENOENT | ENOTDIR | EBADF | ELOOP | EACCES | ENAMETOOLONG

datatype entry = RegFile | Directory bool "(string \<times> entry) list"

fun stat_from :: "entry list \<Rightarrow> entry \<Rightarrow> path \<Rightarrow> errno + entry" where
  "stat_from up n [] = Inr n"
| "stat_from up RegFile (c # cs) = Inl ENOTDIR"
| "stat_from up (Directory x es) (c # cs) =
     (if \<not> x then Inl EACCES
      else if c = ''..'' then
        (case up of
           [] \<Rightarrow> stat_from [] (Directory x es) cs
         | u # us \<Rightarrow> stat_from us u cs)
      else if name_max < length c then Inl ENAMETOOLONG
      else (case map_of es c of
              None \<Rightarrow> Inl ENOENT
            | Some n \<Rightarrow> stat_from (Directory x es # up) n cs))"

definition os_stat :: "entry \<Rightarrow> path \<Rightarrow> errno + entry" where
  "os_stat root p = (if path_max \<le> path_len p then Inl ENAMETOOLONG else stat_from [] root p)"

text \<open>
  Exceptions of the module: an \<^verbatim>\<open>OSError\<close> with its error number
  (\<^verbatim>\<open>PermissionError\<close> is \<open>OSError EACCES\<close>, \<^verbatim>\<open>FileNotFoundError\<close> is
  \<open>OSError ENOENT\<close>) and the \<^verbatim>\<open>AttributeError\<close> of the accessor with its message.
  A Python string is the list of its code points.
\<close>

type_synonym pystr = "nat list"

datatype py_exception = OSError errno | AttributeErr pystr

text \<open>
  \<^verbatim>\<open>Path.is_dir()\<close> and \<^verbatim>\<open>Path.exists()\<close> call \<^verbatim>\<open>stat\<close>, answer \<open>False\<close> on the
  error numbers \<^verbatim>\<open>pathlib\<close> ignores and raise the \<^verbatim>\<open>OSError\<close> again on any other.
\<close>

definition ignore_error :: "errno \<Rightarrow> bool" where
  "ignore_error e = (e = ENOENT \<or> e = ENOTDIR \<or> e = EBADF \<or> e = ELOOP)"

definition path_is_dir :: "entry \<Rightarrow> path \<Rightarrow> py_exception + bool" where
  "path_is_dir root p =
     (case os_stat root p of
        Inr RegFile \<Rightarrow> Inr False
      | Inr (Directory x es) \<Rightarrow> Inr True
      | Inl e \<Rightarrow> if \<not> ignore_error e then Inl (OSError e) else Inr False)"

definition path_exists_os :: "entry \<Rightarrow> path \<Rightarrow> py_exception + bool" where
  "path_exists_os root p =
     (case os_stat root p of
        Inr n \<Rightarrow> Inr True
      | Inl e \<Rightarrow> if \<not> ignore_error e then Inl (OSError e) else Inr False)"


text \<open>The process: its filesystem, its working directory (\<open>None\<close> once that
  directory has been removed, when \<^verbatim>\<open>os.getcwd()\<close> fails) and the resolved location of
  the module's file.\<close>

record world =
  w_fs :: entry
  w_cwd :: "path option"
  w_file :: path

definition path_cwd :: "world \<Rightarrow> py_exception + path" where
  "path_cwd w = (case w_cwd w of None \<Rightarrow> Inl (OSError ENOENT) | Some p \<Rightarrow> Inr p)"

definition is_project_dir_os :: "entry \<Rightarrow> path \<Rightarrow> py_exception + bool" where
  "is_project_dir_os root p =
     (let data_dir = joinpath p ''data'' in
      case path_is_dir root data_dir of
        Inl exn \<Rightarrow> Inl exn
      | Inr d \<Rightarrow>
          if \<not> d then Inr False
          else (case path_exists_os root (joinpath data_dir ''manifest.json'') of
                  Inl exn \<Rightarrow> Inl exn
                | Inr m \<Rightarrow> if m then Inr True else path_is_dir root (joinpath p ''strategies'')))"

fun first_match_os ::
  "(path \<Rightarrow> py_exception + bool) \<Rightarrow> path list \<Rightarrow> py_exception + path option" where
  "first_match_os P [] = Inr None"
| "first_match_os P (c # cs) =
     (case P c of
        Inl exn \<Rightarrow> Inl exn
      | Inr b \<Rightarrow> if b then Inr (Some c) else first_match_os P cs)"

definition get_project_root_os :: "world \<Rightarrow> py_exception + path" where
  "get_project_root_os w =
     (case path_cwd w of
        Inl exn \<Rightarrow> Inl exn
      | Inr cwd \<Rightarrow>
          (case first_match_os (is_project_dir_os (w_fs w)) [cwd, parent cwd] of
             Inl exn \<Rightarrow> Inl exn
           | Inr (Some candidate) \<Rightarrow> Inr candidate
           | Inr None \<Rightarrow>
               (let current = w_file w in
                case first_match_os (is_project_dir_os (w_fs w))
                       ([current] @ parents current) of
                  Inl exn \<Rightarrow> Inl exn
                | Inr (Some p) \<Rightarrow> Inr p
                | Inr None \<Rightarrow>
                    (case first_match_os
                            (\<lambda>p. path_exists_os (w_fs w) (joinpath p ''pyproject.toml''))
                            ([current] @ parents current) of
                       Inl exn \<Rightarrow> Inl exn
                     | Inr (Some p) \<Rightarrow> Inr p
                     | Inr None \<Rightarrow> Inr (parent (parent (parent current)))))))"










text \<open>A filesystem in which every directory may be searched.\<close>

fun all_searchable :: "entry \<Rightarrow> bool" where
  "all_searchable RegFile = True"
| "all_searchable (Directory x es) = (x \<and> (\<forall>n\<in>set (map snd es). all_searchable n))"

section \<open>Example filesystems\<close>

definition paths_py :: path where
  "paths_py = [''proj'', ''src'', ''simtradelab'', ''utils'', ''paths.py'']"

definition src_tree :: node where
  "src_tree = Dir [(''simtradelab'', Dir [(''utils'', Dir [(''paths.py'', File)])])]"


text \<open>A project root marked by \<^verbatim>\<open>data/manifest.json\<close>, with a \<^verbatim>\<open>notebooks/\<close> directory.\<close>

definition fs_manifest :: node where
  "fs_manifest =
     Dir [(''proj'', Dir [(''data'', Dir [(''manifest.json'', File)]),
                          (''notebooks'', Dir []),
                          (''src'', src_tree)])]"


text \<open>No marker anywhere: only the source tree and an unrelated working directory.\<close>

definition fs_no_marker :: node where
  "fs_no_marker = Dir [(''tmp'', Dir []), (''proj'', Dir [(''src'', src_tree)])]"

definition env_of :: "node \<Rightarrow> path \<Rightarrow> env" where
  "env_of root wd = \<lparr>env_fs = root, env_cwd = wd, env_file = paths_py\<rparr>"






text \<open>The files and directories of a filesystem, without the search flags.\<close>

fun erase :: "entry \<Rightarrow> node" where
  "erase RegFile = File"
| "erase (Directory x es) = Dir (map (\<lambda>(s, n). (s, erase n)) es)"

section \<open>Auxiliary facts\<close>





lemma get_project_root_fallback:
  assumes "first_match (is_project_dir (env_fs e)) [env_cwd e, parent (env_cwd e)] = None"
    and "first_match (is_project_dir (env_fs e)) ([env_file e] @ parents (env_file e)) = None"
    and "first_match (\<lambda>p. path_exists (env_fs e) (joinpath p ''pyproject.toml''))
           ([env_file e] @ parents (env_file e)) = None"
  shows "get_project_root e = parent (parent (parent (env_file e)))"
  unfolding get_project_root_def Let_def using assms by simp

lemma parents_Nil: "parents [] = []"
  by (simp add: parents.simps)

lemma parents_Cons: "parents (x # xs) = parent (x # xs) # parents (parent (x # xs))"
  by (subst parents.simps) simp

lemma parents_paths_py:
  "parents paths_py =
     [[''proj'', ''src'', ''simtradelab'', ''utils''], [''proj'', ''src'', ''simtradelab''],
      [''proj'', ''src''], [''proj''], []]"
  by (simp add: paths_py_def parents_Cons parents_Nil parent_def)

subsection \<open>Failing probes\<close>
















subsection \<open>The two models agree where every probe answers\<close>

lemma all_searchable_entry:
  "all_searchable (Directory x es) \<Longrightarrow> map_of es c = Some n \<Longrightarrow> all_searchable n"
  by (auto dest!: map_of_SomeD)

lemma stat_from_erase:
  "all_searchable n \<Longrightarrow> \<forall>c\<in>set p. c \<noteq> ''..'' \<and> length c \<le> name_max \<Longrightarrow>
   (case stat_from up n p of
      Inl e \<Rightarrow> ignore_error e \<and> lookup (erase n) p = None
    | Inr m \<Rightarrow> lookup (erase n) p = Some (erase m))"
proof (induction up n p rule: stat_from.induct)
  case (1 up n)
  then show ?case by simp
next
  case (2 up c cs)
  then show ?case by (simp add: ignore_error_def)
next
  case (3 up x es c cs)
  have entry: "map_of (map (\<lambda>(s, n). (s, erase n)) es) c = map_option erase (map_of es c)"
    by (simp add: map_of_map)
  show ?case
  proof (cases "map_of es c")
    case None
    with "3.prems" entry show ?thesis by (simp add: ignore_error_def)
  next
    case (Some m)
    have "all_searchable m"
      using "3.prems"(1) Some by (rule all_searchable_entry)
    with "3.prems" Some entry "3.IH"(3) [of m] show ?thesis
      by (auto split: sum.splits)
  qed
qed

lemma os_stat_erase:
  assumes "all_searchable root" and "\<forall>c\<in>set p. c \<noteq> ''..'' \<and> length c \<le> name_max"
    and "path_len p < path_max"
  shows "case os_stat root p of
           Inl e \<Rightarrow> ignore_error e \<and> lookup (erase root) p = None
         | Inr m \<Rightarrow> lookup (erase root) p = Some (erase m)"
  using stat_from_erase [OF assms(1,2), of "[]"] assms(3) by (simp add: os_stat_def)

lemma path_is_dir_value:
  assumes "all_searchable root" and "\<forall>c\<in>set p. c \<noteq> ''..'' \<and> length c \<le> name_max"
    and "path_len p < path_max"
  shows "path_is_dir root p = Inr (is_dir (erase root) p)"
proof (cases "os_stat root p")
  case (Inl e)
  with os_stat_erase [OF assms] show ?thesis
    by (simp add: path_is_dir_def is_dir_def)
next
  case (Inr m)
  with os_stat_erase [OF assms] show ?thesis
    by (cases m) (simp_all add: path_is_dir_def is_dir_def)
qed

lemma path_exists_os_value:
  assumes "all_searchable root" and "\<forall>c\<in>set p. c \<noteq> ''..'' \<and> length c \<le> name_max"
    and "path_len p < path_max"
  shows "path_exists_os root p = Inr (path_exists (erase root) p)"
  using os_stat_erase [OF assms]
  by (cases "os_stat root p") (simp_all add: path_exists_os_def path_exists_def)

lemma path_len_joinpath: "path_len (joinpath p seg) \<le> path_len p + Suc (length seg)"
  by (simp add: path_len_def joinpath_def)

lemma is_project_dir_os_value:
  assumes "all_searchable root" and "\<forall>c\<in>set p. c \<noteq> ''..'' \<and> length c \<le> name_max"
    and "path_len p + 19 < path_max"
  shows "is_project_dir_os root p = Inr (is_project_dir (erase root) p)"
proof -
  have len: "path_len (joinpath p ''data'') < path_max"
    "path_len (joinpath (joinpath p ''data'') ''manifest.json'') < path_max"
    "path_len (joinpath p ''strategies'') < path_max"
    using assms(3) path_len_joinpath [of p "''data''"] path_len_joinpath [of p "''strategies''"]
      path_len_joinpath [of "joinpath p ''data''" "''manifest.json''"]
    by simp_all
  have names: "\<forall>c\<in>set (joinpath p ''data''). c \<noteq> ''..'' \<and> length c \<le> name_max"
    "\<forall>c\<in>set (joinpath (joinpath p ''data'') ''manifest.json''). c \<noteq> ''..'' \<and> length c \<le> name_max"
    "\<forall>c\<in>set (joinpath p ''strategies''). c \<noteq> ''..'' \<and> length c \<le> name_max"
    using assms(2) by (auto simp: joinpath_def name_max_def)
  show ?thesis
    by (simp add: is_project_dir_os_def is_project_dir_def Let_def
          path_is_dir_value [OF assms(1) names(1) len(1)]
          path_exists_os_value [OF assms(1) names(2) len(2)]
          path_is_dir_value [OF assms(1) names(3) len(3)])
qed

lemma first_match_os_value:
  "\<forall>c\<in>set cs. P_os c = Inr (P c) \<Longrightarrow> first_match_os P_os cs = Inr (first_match P cs)"
  by (induction cs) auto

lemma set_parent_subset: "set (parent p) \<subseteq> set p"
  by (auto simp: parent_def dest: in_set_butlastD)

lemma set_parents_subset: "q \<in> set (parents p) \<Longrightarrow> set q \<subseteq> set p"
proof (induction p arbitrary: q rule: parents.induct)
  case (1 p)
  show ?case
  proof (cases "p = []")
    case True
    with "1.prems" show ?thesis by (simp add: parents.simps)
  next
    case False
    with "1.prems" have "q = parent p \<or> q \<in> set (parents (parent p))"
      by (subst (asm) parents.simps) simp
    then show ?thesis
      using "1.IH" [OF False] set_parent_subset [of p] by blast
  qed
qed

lemma get_project_root_os_value:
  assumes "all_searchable (w_fs w)" and "w_cwd w = Some cwd"
    and "\<forall>c\<in>set cwd \<union> set (w_file w). c \<noteq> ''..'' \<and> length c \<le> name_max"
    and "\<forall>q\<in>set ([cwd, parent cwd] @ [w_file w] @ parents (w_file w)). path_len q + 19 < path_max"
  shows "get_project_root_os w
           = Inr (get_project_root \<lparr>env_fs = erase (w_fs w), env_cwd = cwd, env_file = w_file w\<rparr>)"
proof -
  have plain: "\<forall>c\<in>set q. c \<noteq> ''..'' \<and> length c \<le> name_max"
    if "q \<in> set ([cwd, parent cwd] @ [w_file w] @ parents (w_file w))" for q
    using that assms(3) set_parent_subset [of cwd] set_parents_subset [of q "w_file w"]
    by auto
  have dirs: "first_match_os (is_project_dir_os (w_fs w)) cs
                = Inr (first_match (is_project_dir (erase (w_fs w))) cs)"
    if "set cs \<subseteq> set ([cwd, parent cwd] @ [w_file w] @ parents (w_file w))" for cs
  proof (rule first_match_os_value, rule ballI)
    fix c assume "c \<in> set cs"
    with that have c: "c \<in> set ([cwd, parent cwd] @ [w_file w] @ parents (w_file w))" by blast
    show "is_project_dir_os (w_fs w) c = Inr (is_project_dir (erase (w_fs w)) c)"
      using plain [OF c] assms(4) c by (intro is_project_dir_os_value [OF assms(1)]) blast+
  qed
  have toml: "first_match_os (\<lambda>p. path_exists_os (w_fs w) (joinpath p ''pyproject.toml'')) cs
                = Inr (first_match (\<lambda>p. path_exists (erase (w_fs w)) (joinpath p ''pyproject.toml''))
                         cs)"
    if "set cs \<subseteq> set ([cwd, parent cwd] @ [w_file w] @ parents (w_file w))" for cs
  proof (rule first_match_os_value, rule ballI)
    fix c assume "c \<in> set cs"
    with that have c: "c \<in> set ([cwd, parent cwd] @ [w_file w] @ parents (w_file w))" by blast
    have names: "\<forall>s\<in>set (joinpath c ''pyproject.toml''). s \<noteq> ''..'' \<and> length s \<le> name_max"
      using plain [OF c] by (auto simp: joinpath_def name_max_def)
    have "path_len c + 19 < path_max"
      using assms(4) c by blast
    then have len: "path_len (joinpath c ''pyproject.toml'') < path_max"
      using path_len_joinpath [of c "''pyproject.toml''"] by simp
    show "path_exists_os (w_fs w) (joinpath c ''pyproject.toml'')
            = Inr (path_exists (erase (w_fs w)) (joinpath c ''pyproject.toml''))"
      using names len by (rule path_exists_os_value [OF assms(1)])
  qed
  have r1: "first_match_os (is_project_dir_os (w_fs w)) [cwd, parent cwd]
              = Inr (first_match (is_project_dir (erase (w_fs w))) [cwd, parent cwd])"
    by (rule dirs) simp
  have r2: "first_match_os (is_project_dir_os (w_fs w)) (w_file w # parents (w_file w))
              = Inr (first_match (is_project_dir (erase (w_fs w))) (w_file w # parents (w_file w)))"
    by (rule dirs) auto
  have r3: "first_match_os (\<lambda>p. path_exists_os (w_fs w) (joinpath p ''pyproject.toml''))
                (w_file w # parents (w_file w))
              = Inr (first_match (\<lambda>p. path_exists (erase (w_fs w)) (joinpath p ''pyproject.toml''))
                       (w_file w # parents (w_file w)))"
    by (rule toml) auto
  show ?thesis
    by (simp add: get_project_root_os_def get_project_root_def Let_def path_cwd_def assms(2)
          r1 r2 r3 del: first_match_os.simps first_match.simps split: option.splits)
qed

section \<open>Recognising a project directory\<close>



section \<open>Locating the project root\<close>

text \<open>
  C3. When the working directory is a project directory, \<open>get_project_root\<close> returns
  it; when it is not but its direct parent is, the parent is returned.
\<close>

theorem get_project_root_cwd:
  "(is_project_dir (env_fs e) (env_cwd e) \<longrightarrow> get_project_root e = env_cwd e)
   \<and> (\<not> is_project_dir (env_fs e) (env_cwd e)
       \<and> is_project_dir (env_fs e) (parent (env_cwd e))
      \<longrightarrow> get_project_root e = parent (env_cwd e))"
  by (simp add: get_project_root_def Let_def)

theorem get_project_root_cwd_witness:
  "is_project_dir fs_manifest [''proj'']
   \<and> get_project_root (env_of fs_manifest [''proj'']) = [''proj'']
   \<and> \<not> is_project_dir fs_manifest [''proj'', ''notebooks'']
   \<and> is_project_dir fs_manifest (parent [''proj'', ''notebooks''])
   \<and> get_project_root (env_of fs_manifest [''proj'', ''notebooks'']) = [''proj'']"
  using get_project_root_cwd [of "env_of fs_manifest [''proj'']"]
        get_project_root_cwd [of "env_of fs_manifest [''proj'', ''notebooks'']"]
  by (simp add: env_of_def fs_manifest_def is_project_dir_def joinpath_def is_dir_def
        path_exists_def parent_def)



text \<open>
  C4. With the module at \<^verbatim>\<open>/proj/src/simtradelab/utils/paths.py\<close> and no marker
  anywhere, every search strategy fails and the fallback is taken: it returns
  \<^verbatim>\<open>/proj/src\<close>, three levels above the file, which is two levels above the containing
  directory \<^verbatim>\<open>/proj/src/simtradelab/utils\<close>. Three levels above the containing
  directory is \<^verbatim>\<open>/proj\<close>.
\<close>

theorem get_project_root_fallback_src:
  "first_match (is_project_dir fs_no_marker) [[''tmp''], parent [''tmp'']] = None
   \<and> first_match (is_project_dir fs_no_marker) ([paths_py] @ parents paths_py) = None
   \<and> first_match (\<lambda>p. path_exists fs_no_marker (joinpath p ''pyproject.toml''))
        ([paths_py] @ parents paths_py) = None
   \<and> parent paths_py = [''proj'', ''src'', ''simtradelab'', ''utils'']
   \<and> parent (parent (parent (parent paths_py))) = [''proj'']
   \<and> get_project_root (env_of fs_no_marker [''tmp'']) = [''proj'', ''src'']"
proof -
  have s1: "first_match (is_project_dir fs_no_marker) [[''tmp''], parent [''tmp'']] = None"
    by (simp add: fs_no_marker_def is_project_dir_def joinpath_def is_dir_def parent_def)
  have s2: "first_match (is_project_dir fs_no_marker) ([paths_py] @ parents paths_py) = None"
    unfolding parents_paths_py
    by (simp add: fs_no_marker_def src_tree_def paths_py_def is_project_dir_def
          joinpath_def is_dir_def)
  have s3: "first_match (\<lambda>p. path_exists fs_no_marker (joinpath p ''pyproject.toml''))
              ([paths_py] @ parents paths_py) = None"
    unfolding parents_paths_py
    by (simp add: fs_no_marker_def src_tree_def paths_py_def joinpath_def path_exists_def)
  have up: "parent paths_py = [''proj'', ''src'', ''simtradelab'', ''utils'']
            \<and> parent (parent (parent (parent paths_py))) = [''proj'']"
    by (simp add: paths_py_def parent_def)
  have "get_project_root (env_of fs_no_marker [''tmp'']) = parent (parent (parent paths_py))"
    using s1 s2 s3 by (simp add: get_project_root_fallback env_of_def)
  also have "\<dots> = [''proj'', ''src'']"
    by (simp add: paths_py_def parent_def)
  finally show ?thesis using s1 s2 s3 up by blast
qed

section \<open>Derived paths and lazy constants\<close>

text \<open>
  C5. The data path is the project root joined with \<^verbatim>\<open>data\<close>, the strategies path is
  the project root joined with \<^verbatim>\<open>strategies\<close>, in every environment.
\<close>

theorem data_and_strategies_paths:
  "get_data_path e = joinpath (get_project_root e) ''data''
   \<and> get_strategies_path e = joinpath (get_project_root e) ''strategies''"
  by (simp add: get_data_path_def get_strategies_path_def)

text \<open>
  C6. On each of the five recognised names the accessor returns the value of the
  table, computed from the environment of the access.
\<close>

theorem module_getattr_table:
  "module_getattr e ''PROJECT_ROOT'' = Inr (get_project_root e)
   \<and> module_getattr e ''DATA_PATH'' = Inr (get_data_path e)
   \<and> module_getattr e ''STRATEGIES_PATH'' = Inr (get_strategies_path e)
   \<and> module_getattr e ''ADJ_PRE_CACHE_PATH''
       = Inr (joinpath (get_data_path e) ''ptrade_adj_pre.parquet'')
   \<and> module_getattr e ''ADJ_POST_CACHE_PATH''
       = Inr (joinpath (get_data_path e) ''ptrade_adj_post.parquet'')"
  by (simp add: module_getattr_def)




section \<open>Which probes raise\<close>




section \<open>Where the upward walk starts\<close>



end
